theory Spec2Isabelle
  imports Main "HOL-Library.Sublist"
begin

section \<open>Python strings\<close>

text \<open>
  A Python \<open>str\<close> is modelled as a \<open>string\<close>, one \<open>char\<close> per code point; the model
  covers the code points below 256.  The character classes below are the ones CPython
  uses for such code points.  \<open>\s\<close> of \<open>re\<close> is \<open>Py_UNICODE_ISSPACE\<close>: the six ASCII
  whitespace characters, the four separators U+001C to U+001F, U+0085 and U+00A0.
  \<open>int()\<close> strips less: it leaves the characters below 127 as they are and then strips
  by \<open>Py_ISSPACE\<close>, so the separators U+001C to U+001F are not whitespace for it.
  \<open>\d\<close> and the digits of \<open>int()\<close> are the ten decimal digits.
\<close>

definition is_space :: "char \<Rightarrow> bool" where
  "is_space c \<longleftrightarrow> c \<in> set [CHR 0x09, CHR 0x0A, CHR 0x0B, CHR 0x0C, CHR 0x0D,
     CHR 0x1C, CHR 0x1D, CHR 0x1E, CHR 0x1F, CHR 0x20, CHR 0x85, CHR 0xA0]"

definition is_int_space :: "char \<Rightarrow> bool" where
  "is_int_space c \<longleftrightarrow> c \<in> set [CHR 0x09, CHR 0x0A, CHR 0x0B, CHR 0x0C, CHR 0x0D,
     CHR 0x20, CHR 0x85, CHR 0xA0]"

definition is_digit :: "char \<Rightarrow> bool" where
  "is_digit c \<longleftrightarrow> c \<in> set ''0123456789''"

definition digit_value :: "char \<Rightarrow> int" where
  "digit_value c = int (of_char c) - 48"

text \<open>\<open>s.split('/')\<close>: the pieces between the separators; never an empty list.\<close>

fun py_split :: "char \<Rightarrow> string \<Rightarrow> string list" where
  "py_split sep [] = [[]]"
| "py_split sep (x # xs) =
     (if x = sep then [] # py_split sep xs
      else (case py_split sep xs of
              [] \<Rightarrow> [[x]]
            | p # ps \<Rightarrow> (x # p) # ps))"

text \<open>
  \<open>s.replace(old, new)\<close>: every non-overlapping occurrence of \<open>old\<close>, found from left
  to right, is replaced.  An empty \<open>old\<close> matches before every character and at the end.
\<close>

function replace_from :: "string \<Rightarrow> string \<Rightarrow> string \<Rightarrow> string" where
  "replace_from old new [] = []"
| "replace_from old new (x # xs) =
     (if prefix old (x # xs) then new @ replace_from old new (drop (length old - 1) xs)
      else x # replace_from old new xs)"
  by pat_completeness auto
termination
  by (relation "measure (\<lambda>(old, new, s). length s)") auto

definition py_replace :: "string \<Rightarrow> string \<Rightarrow> string \<Rightarrow> string" where
  "py_replace s old new =
     (if old = [] then new @ concat (map (\<lambda>c. c # new) s) else replace_from old new s)"

text \<open>\<open>sub in s\<close>.\<close>

fun contains :: "string \<Rightarrow> string \<Rightarrow> bool" where
  "contains sub [] \<longleftrightarrow> sub = []"
| "contains sub (x # xs) \<longleftrightarrow> prefix sub (x # xs) \<or> contains sub xs"

text \<open>\<open>s.lower()\<close> on the code points below 256: A-Z and the accented capitals.\<close>

definition lower_char :: "char \<Rightarrow> char" where
  "lower_char c =
     (let n = (of_char c :: nat) in
      if (65 \<le> n \<and> n \<le> 90) \<or> (192 \<le> n \<and> n \<le> 222 \<and> n \<noteq> 215) then char_of (n + 32) else c)"

definition py_lower :: "string \<Rightarrow> string" where
  "py_lower s = map lower_char s"

text \<open>Truth value of a string or of \<open>None\<close>, as \<open>if x:\<close> tests it.\<close>

fun truthy :: "string option \<Rightarrow> bool" where
  "truthy None = False"
| "truthy (Some s) = (s \<noteq> [])"

text \<open>\<open>str(n)\<close> for a length.\<close>

fun str_of_nat :: "nat \<Rightarrow> string" where
  "str_of_nat n =
     (if n < 10 then [char_of (48 + n)]
      else str_of_nat (n div 10) @ [char_of (48 + n mod 10)])"

section \<open>Exceptions\<close>

text \<open>
  The subclasses of \<open>Exception\<close> the program can meet, each with the text that
  \<open>str(e)\<close> gives.  \<open>SystemExit\<close> is not one of them: \<open>except Exception\<close> lets it pass.
\<close>

datatype exn_kind = ValueError | KeyError | OSError | UnicodeDecodeError | GitError

datatype exn = Exn (kind: exn_kind) (text_of: string)

datatype raised = Exc exn | SystemExit nat

section \<open>The built-in \<open>int\<close> on strings\<close>

text \<open>
  \<open>int(s)\<close>, base 10: surrounding whitespace (\<open>is_int_space\<close>) is stripped, one sign is
  allowed, then
  digits with single underscores between them.  Anything else raises \<open>ValueError\<close>
  (its text shows the literal between quotes; the escaping done by \<open>repr\<close> is left out).
  Since CPython 3.11 a literal of more than 640 digits also raises \<open>ValueError\<close> when it
  has more digits than the interpreter's \<open>int_max_str_digits\<close> (0 switches the limit
  off; older interpreters behave as with 0).
\<close>

definition py_strip :: "string \<Rightarrow> string" where
  "py_strip s = rev (dropWhile is_int_space (rev (dropWhile is_int_space s)))"

fun digits_ok :: "string \<Rightarrow> bool" where
  "digits_ok [] \<longleftrightarrow> False"
| "digits_ok [x] \<longleftrightarrow> is_digit x"
| "digits_ok (x # y # r) \<longleftrightarrow>
     is_digit x \<and> (if y = CHR ''_'' then digits_ok r else digits_ok (y # r))"

definition decimal_value :: "string \<Rightarrow> int" where
  "decimal_value ds = foldl (\<lambda>a c. 10 * a + digit_value c) 0 ds"

definition py_int :: "nat \<Rightarrow> string \<Rightarrow> exn + int" where
  "py_int max_str_digits s =
     (let t = py_strip s;
          sgn = (case t of c # r \<Rightarrow> if c = CHR ''-'' then - 1 else 1 | [] \<Rightarrow> (1::int));
          body = (case t of c # r \<Rightarrow> if c = CHR ''-'' \<or> c = CHR ''+'' then r else t | [] \<Rightarrow> t);
          ds = filter is_digit body
      in if \<not> digits_ok body then
           Inl (Exn ValueError
             (''invalid literal for int() with base 10: '' @ [CHR 0x27] @ s @ [CHR 0x27]))
         else if 640 < length ds \<and> 0 < max_str_digits \<and> max_str_digits < length ds then
           Inl (Exn ValueError ''Exceeds the limit for integer string conversion'')
         else Inr (sgn * decimal_value ds))"

section \<open>Regular expressions\<close>

text \<open>
  The two patterns of \<open>detect_java_version\<close> are sequences of single-character
  items, each with a greedy quantifier, around one capturing group.  \<open>run\<close> is the
  backtracking matcher of \<open>re\<close> on such sequences, anchored at the head of the text:
  a greedy item first tries to take a character and falls back to taking none when the
  rest of the pattern then fails.  Its result is the state of group 1 on the first
  successful path.  \<open>re_search\<close> tries every start position from the left, the end of
  the text included.
\<close>

datatype cclass = Lit char | Space | Digit | AnyOf "char list"

datatype quant = Once | Optional | ZeroOrMore | OneOrMore

datatype node = Item cclass quant | GroupStart | GroupEnd

fun accepts :: "cclass \<Rightarrow> char \<Rightarrow> bool" where
  "accepts (Lit c) x \<longleftrightarrow> x = c"
| "accepts Space x \<longleftrightarrow> is_space x"
| "accepts Digit x \<longleftrightarrow> is_digit x"
| "accepts (AnyOf cs) x \<longleftrightarrow> x \<in> set cs"

datatype capture = Unset | Opened string | Closed string

fun feed :: "char \<Rightarrow> capture \<Rightarrow> capture" where
  "feed x (Opened g) = Opened (g @ [x])"
| "feed x c = c"

fun close_group :: "capture \<Rightarrow> capture" where
  "close_group (Opened g) = Closed g"
| "close_group c = c"

fun run :: "node list \<Rightarrow> string \<Rightarrow> capture \<Rightarrow> capture option" where
  "run [] s c = Some c"
| "run (GroupStart # r) s c = run r s (Opened [])"
| "run (GroupEnd # r) s c = run r s (close_group c)"
| "run (Item k Once # r) [] c = None"
| "run (Item k Once # r) (x # xs) c =
     (if accepts k x then run r xs (feed x c) else None)"
| "run (Item k Optional # r) [] c = run r [] c"
| "run (Item k Optional # r) (x # xs) c =
     (if accepts k x then
        (case run r xs (feed x c) of
           Some m \<Rightarrow> Some m
         | None \<Rightarrow> run r (x # xs) c)
      else run r (x # xs) c)"
| "run (Item k ZeroOrMore # r) [] c = run r [] c"
| "run (Item k ZeroOrMore # r) (x # xs) c =
     (if accepts k x then
        (case run (Item k ZeroOrMore # r) xs (feed x c) of
           Some m \<Rightarrow> Some m
         | None \<Rightarrow> run r (x # xs) c)
      else run r (x # xs) c)"
| "run (Item k OneOrMore # r) [] c = None"
| "run (Item k OneOrMore # r) (x # xs) c =
     (if accepts k x then run (Item k ZeroOrMore # r) xs (feed x c) else None)"

fun re_search :: "node list \<Rightarrow> string \<Rightarrow> capture option" where
  "re_search p [] = run p [] Unset"
| "re_search p (x # xs) =
     (case run p (x # xs) Unset of
        Some m \<Rightarrow> Some m
      | None \<Rightarrow> re_search p xs)"

text \<open>\<open>m.group(1)\<close>: \<open>None\<close> when the group took no part in the match.\<close>

fun group1 :: "capture \<Rightarrow> string option" where
  "group1 (Closed g) = Some g"
| "group1 c = None"

definition literal :: "string \<Rightarrow> node list" where
  "literal s = map (\<lambda>c. Item (Lit c) Once) s"

abbreviation quote_class :: cclass where
  "quote_class \<equiv> AnyOf [CHR 0x27, CHR 0x22]"

text \<open>\<^verbatim>\<open>sourceCompatibility\s*=\s*[\'"]?(\d+)[\'"]?\<close>\<close>

definition source_compat_pattern :: "node list" where
  "source_compat_pattern =
     literal ''sourceCompatibility'' @
     [Item Space ZeroOrMore, Item (Lit CHR ''='') Once, Item Space ZeroOrMore,
      Item quote_class Optional, GroupStart, Item Digit OneOrMore, GroupEnd,
      Item quote_class Optional]"

text \<open>\<^verbatim>\<open>sourceCompatibility\s*=\s*JavaVersion\.VERSION_(\d+)\<close>\<close>

definition java_version_pattern :: "node list" where
  "java_version_pattern =
     literal ''sourceCompatibility'' @
     [Item Space ZeroOrMore, Item (Lit CHR ''='') Once, Item Space ZeroOrMore] @
     literal ''JavaVersion.VERSION_'' @
     [GroupStart, Item Digit OneOrMore, GroupEnd]"

section \<open>Paths\<close>

text \<open>\<open>os.path.join(a, b)\<close> on POSIX.\<close>

definition path_join :: "string \<Rightarrow> string \<Rightarrow> string" where
  "path_join a b =
     (if prefix ''/'' b then b
      else if a = [] \<or> last a = CHR ''/'' then a @ b
      else a @ ''/'' @ b)"

text \<open>
  \<open>Path(p).name\<close>: the last component, empty components and \<open>.\<close> left out.
  \<open>Path(p).suffix\<close>: the name from its last dot on, when that dot is neither the first
  nor the last character of the name.
\<close>

definition path_name :: "string \<Rightarrow> string" where
  "path_name p =
     (case filter (\<lambda>x. x \<noteq> [] \<and> x \<noteq> ''.'') (py_split CHR ''/'' p) of
        [] \<Rightarrow> []
      | q # qs \<Rightarrow> last (q # qs))"

definition path_suffix :: "string \<Rightarrow> string" where
  "path_suffix p =
     (let name = path_name p;
          ext = rev (takeWhile (\<lambda>c. c \<noteq> CHR ''.'') (rev name))
      in if CHR ''.'' \<in> set name \<and> ext \<noteq> [] \<and> length ext + 1 < length name
         then CHR ''.'' # ext else [])"

section \<open>The outside world\<close>

text \<open>
  Every call that leaves the process (the file system, the environment, GitPython) and
  every log line is an event.  The program threads the list of events so far; the
  environment decides, from that history, whether a call raises and what it returns.
\<close>

datatype level = INFO | WARNING | ERROR

datatype event =
    Log level string
  | Makedirs string
  | PathExists string
  | OpenRead string
  | OpenWrite string string
  | CsvRead string
  | GitRepo string
  | GitRemoteOrigin string
  | GitFetch string
  | GitReferences string
  | GitCheckout string string
  | GitCheckoutNew string string string
  | GitPull string
  | GitCloneFrom string string string
  | GitDiffCached string
  | GitDiff string
  | GitUntracked string
  | GitAdd string string
  | GitCommit string string
  | GitPush string

record env =
  raises :: "event list \<Rightarrow> event \<Rightarrow> exn option"
  environ :: "string \<Rightarrow> string option"
  path_exists :: "event list \<Rightarrow> string \<Rightarrow> bool"
  file_text :: "event list \<Rightarrow> string \<Rightarrow> string"
  csv_rows :: "event list \<Rightarrow> string \<Rightarrow> (string \<times> string) list list"
  reference_names :: "event list \<Rightarrow> string \<Rightarrow> string list"
  diff_cached :: "event list \<Rightarrow> string \<Rightarrow> string list"
  diff_worktree :: "event list \<Rightarrow> string \<Rightarrow> string list"
  untracked_files :: "event list \<Rightarrow> string \<Rightarrow> string list"
  int_max_str_digits :: nat

type_synonym 'a io = "event list \<Rightarrow> (raised + 'a) \<times> event list"

definition io_return :: "'a \<Rightarrow> 'a io" where
  "io_return x = (\<lambda>tr. (Inr x, tr))"

definition io_bind :: "'a io \<Rightarrow> ('a \<Rightarrow> 'b io) \<Rightarrow> 'b io" where
  "io_bind m f =
     (\<lambda>tr. case m tr of
        (Inl e, tr') \<Rightarrow> (Inl e, tr')
      | (Inr x, tr') \<Rightarrow> f x tr')"

definition io_raise :: "raised \<Rightarrow> 'a io" where
  "io_raise e = (\<lambda>tr. (Inl e, tr))"

text \<open>\<open>try: m except Exception as e: h e\<close>\<close>

definition except_Exception :: "'a io \<Rightarrow> (exn \<Rightarrow> 'a io) \<Rightarrow> 'a io" where
  "except_Exception m h =
     (\<lambda>tr. case m tr of
        (Inl (Exc e), tr') \<Rightarrow> h e tr'
      | (Inl (SystemExit n), tr') \<Rightarrow> (Inl (SystemExit n), tr')
      | (Inr x, tr') \<Rightarrow> (Inr x, tr'))"

definition logger :: "level \<Rightarrow> string \<Rightarrow> unit io" where
  "logger l msg = (\<lambda>tr. (Inr (), tr @ [Log l msg]))"

text \<open>A call made for its effect, and a call made for its value.\<close>

definition ask :: "env \<Rightarrow> event \<Rightarrow> (event list \<Rightarrow> 'a) \<Rightarrow> 'a io" where
  "ask E ev val =
     (\<lambda>tr. ((case raises E tr ev of Some e \<Rightarrow> Inl (Exc e) | None \<Rightarrow> Inr (val tr)),
            tr @ [ev]))"

definition perform :: "env \<Rightarrow> event \<Rightarrow> unit io" where
  "perform E ev = ask E ev (\<lambda>tr. ())"

text \<open>\<open>os.path.exists\<close> never raises.\<close>

definition os_path_exists :: "env \<Rightarrow> string \<Rightarrow> bool io" where
  "os_path_exists E p = (\<lambda>tr. (Inr (path_exists E tr p), tr @ [PathExists p]))"

text \<open>
  GitPython's \<open>Repo.is_dirty(index, working_tree, untracked_files)\<close> on a checkout:
  the staged diff, then the diff of the tracked files, then, only when asked, the
  untracked files.  The parameters default to \<open>True\<close>, \<open>True\<close> and \<open>False\<close>.
  The checkout is one that has an index file and is not bare, as every clone is
  (GitPython answers \<open>False\<close> at once for a bare repository and leaves the staged diff
  out when there is no index file).
\<close>

definition is_dirty :: "env \<Rightarrow> string \<Rightarrow> bool \<Rightarrow> bool \<Rightarrow> bool \<Rightarrow> bool io" where
  "is_dirty E repo_path index working_tree untracked =
     io_bind (if index then ask E (GitDiffCached repo_path) (\<lambda>tr. diff_cached E tr repo_path \<noteq> [])
              else io_return False) (\<lambda>staged.
     if staged then io_return True else
     io_bind (if working_tree then ask E (GitDiff repo_path) (\<lambda>tr. diff_worktree E tr repo_path \<noteq> [])
              else io_return False) (\<lambda>changed.
     if changed then io_return True else
     (if untracked then ask E (GitUntracked repo_path) (\<lambda>tr. untracked_files E tr repo_path \<noteq> [])
      else io_return False)))"

section \<open>The program\<close>

record cli_args =
  arg_repo_file :: string
  arg_master_config :: string
  arg_token :: "string option"
  arg_workspace :: string

record updater =
  repo_file :: string
  workspace_dir :: string
  master_config_file :: string
  token :: "string option"
  master_config_template :: string

record repo_entry =
  url :: string
  branch :: string

text \<open>\<open>f"{x}"\<close> of a value that is a string or \<open>None\<close>.\<close>

fun fmt :: "string option \<Rightarrow> string" where
  "fmt None = ''None''"
| "fmt (Some s) = s"

subsection \<open>\<open>_load_master_config_template\<close> and \<open>__init__\<close>\<close>

definition load_master_config_template :: "env \<Rightarrow> string \<Rightarrow> string io" where
  "load_master_config_template E config_file =
     except_Exception
       (io_bind (ask E (OpenRead config_file) (\<lambda>tr. file_text E tr config_file)) (\<lambda>template.
        io_bind (logger INFO (''Loaded master template from '' @ config_file)) (\<lambda>_.
        io_return template)))
       (\<lambda>e. io_bind (logger ERROR (''Error loading master config template: '' @ text_of e)) (\<lambda>_.
             io_raise (SystemExit 1)))"

definition init :: "env \<Rightarrow> cli_args \<Rightarrow> updater io" where
  "init E args =
     (let tok = (if truthy (arg_token args) then arg_token args else environ E ''GITHUB_TOKEN'') in
      io_bind (if truthy tok then logger INFO ''GitHub token configured successfully''
               else logger WARNING
                 (''No GitHub token provided. Private repositories won'' @ [CHR 0x27] @
                  ''t be accessible.'')) (\<lambda>_.
      io_bind (perform E (Makedirs (arg_workspace args))) (\<lambda>_.
      io_bind (load_master_config_template E (arg_master_config args)) (\<lambda>template.
      io_return \<lparr>repo_file = arg_repo_file args, workspace_dir = arg_workspace args,
                 master_config_file = arg_master_config args, token = tok,
                 master_config_template = template\<rparr>))))"

subsection \<open>\<open>read_repositories\<close>\<close>

text \<open>
  A row of \<open>csv.DictReader\<close> is a dictionary from the header's names to the row's
  fields; \<open>row[name]\<close> raises \<open>KeyError\<close> for a name the header does not have.
  The rows modelled are as long as the header, so that every field is a string (for a
  shorter row \<open>csv.DictReader\<close> fills in \<open>None\<close>).
\<close>

definition row_get :: "(string \<times> string) list \<Rightarrow> string \<Rightarrow> exn + string" where
  "row_get row name =
     (case map_of row name of
        None \<Rightarrow> Inl (Exn KeyError ([CHR 0x27] @ name @ [CHR 0x27]))
      | Some v \<Rightarrow> Inr v)"

fun rows_to_repos :: "(string \<times> string) list list \<Rightarrow> exn + repo_entry list" where
  "rows_to_repos [] = Inr []"
| "rows_to_repos (row # rows) =
     (case row_get row ''repository_url'' of
        Inl e \<Rightarrow> Inl e
      | Inr u \<Rightarrow>
          (case row_get row ''branch'' of
             Inl e \<Rightarrow> Inl e
           | Inr b \<Rightarrow>
               (case rows_to_repos rows of
                  Inl e \<Rightarrow> Inl e
                | Inr repos \<Rightarrow> Inr (\<lparr>url = u, branch = b\<rparr> # repos))))"

definition file_ext_of :: "string \<Rightarrow> string" where
  "file_ext_of path = py_lower (path_suffix path)"

definition read_repositories :: "env \<Rightarrow> updater \<Rightarrow> repo_entry list io" where
  "read_repositories E self =
     (let file_ext = file_ext_of (repo_file self) in
      except_Exception
        (io_bind
           (if file_ext = ''.csv'' then
              io_bind (ask E (CsvRead (repo_file self)) (\<lambda>tr. csv_rows E tr (repo_file self)))
                (\<lambda>rows. case rows_to_repos rows of
                           Inl e \<Rightarrow> io_raise (Exc e)
                         | Inr repos \<Rightarrow> io_return repos)
            else
              io_bind (logger ERROR (''Unsupported file format: '' @ file_ext)) (\<lambda>_.
              io_raise (SystemExit 1))) (\<lambda>repos.
         io_bind (logger INFO (''Loaded '' @ str_of_nat (length repos) @
                    '' repositories from '' @ repo_file self)) (\<lambda>_.
         io_return repos)))
        (\<lambda>e. io_bind (logger ERROR (''Error reading repository file: '' @ text_of e)) (\<lambda>_.
              io_raise (SystemExit 1))))"

subsection \<open>\<open>clone_repository\<close>\<close>

text \<open>\<open>repo_url.split('/')[-1].replace('.git', '')\<close>\<close>

definition repo_name_of :: "string \<Rightarrow> string" where
  "repo_name_of repo_url = py_replace (last (py_split CHR ''/'' repo_url)) ''.git'' ''''"

definition clone_repository :: "env \<Rightarrow> updater \<Rightarrow> string \<Rightarrow> string \<Rightarrow> string option io" where
  "clone_repository E self repo_url br =
     (let repo_name = repo_name_of repo_url;
          repo_path = path_join (workspace_dir self) repo_name in
      except_Exception
        (io_bind (os_path_exists E repo_path) (\<lambda>present.
         if present then
           io_bind (logger INFO (''Updating existing repository: '' @ repo_name)) (\<lambda>_.
           io_bind (perform E (GitRepo repo_path)) (\<lambda>_.
           io_bind (perform E (GitRemoteOrigin repo_path)) (\<lambda>_.
           io_bind (perform E (GitFetch repo_path)) (\<lambda>_.
           io_bind (ask E (GitReferences repo_path) (\<lambda>tr. reference_names E tr repo_path)) (\<lambda>refs.
           io_bind (if br \<in> set (map (\<lambda>name. last (py_split CHR ''/'' name)) refs)
                    then perform E (GitCheckout repo_path br)
                    else perform E (GitCheckoutNew repo_path (''origin/'' @ br) br)) (\<lambda>_.
           io_bind (perform E (GitPull repo_path)) (\<lambda>_.
           io_return (Some repo_path))))))))
         else
           io_bind (logger INFO (''Cloning repository: '' @ repo_name @ '', branch: '' @ br)) (\<lambda>_.
           io_bind (perform E (GitCloneFrom repo_url repo_path br)) (\<lambda>_.
           io_return (Some repo_path)))))
        (\<lambda>e. io_bind (logger ERROR (''Error handling repository '' @ repo_name @ '': '' @
                        text_of e)) (\<lambda>_.
              io_return None)))"

subsection \<open>\<open>detect_java_version\<close>\<close>

text \<open>What the two searches return for the text of the descriptor.\<close>

definition version_in :: "string \<Rightarrow> string option" where
  "version_in content =
     (case re_search source_compat_pattern content of
        Some m \<Rightarrow> group1 m
      | None \<Rightarrow>
          (case re_search java_version_pattern content of
             Some m \<Rightarrow> group1 m
           | None \<Rightarrow> None))"

definition scan_content :: "string \<Rightarrow> string option io" where
  "scan_content content =
     (case re_search source_compat_pattern content of
        Some m \<Rightarrow>
          io_bind (logger INFO (''Detected Java version: '' @ fmt (group1 m))) (\<lambda>_.
          io_return (group1 m))
      | None \<Rightarrow>
          (case re_search java_version_pattern content of
             Some m \<Rightarrow>
               io_bind (logger INFO (''Detected Java version: '' @ fmt (group1 m))) (\<lambda>_.
               io_return (group1 m))
           | None \<Rightarrow>
               io_bind (logger WARNING ''Could not detect Java version in build.gradle'') (\<lambda>_.
               io_return None)))"

definition detect_java_version :: "env \<Rightarrow> string \<Rightarrow> string option io" where
  "detect_java_version E repo_path =
     (let gradle_file = path_join repo_path ''build.gradle'' in
      io_bind (os_path_exists E gradle_file) (\<lambda>present.
      if \<not> present then
        io_bind (logger WARNING (''build.gradle not found in '' @ repo_path)) (\<lambda>_.
        io_return None)
      else
        except_Exception
          (io_bind (ask E (OpenRead gradle_file) (\<lambda>tr. file_text E tr gradle_file)) scan_content)
          (\<lambda>e. io_bind (logger ERROR (''Error reading build.gradle: '' @ text_of e)) (\<lambda>_.
                io_return None))))"

subsection \<open>\<open>get_docker_image_for_java_version\<close>\<close>

definition image_17 :: string where
  "image_17 = ''circleci/openjdk:17-buster-node-browsers-legacy''"

definition image_13 :: string where
  "image_13 = ''circleci/openjdk:13.0-buster-node-browsers-legacy''"

definition get_docker_image_for_java_version :: "env \<Rightarrow> string \<Rightarrow> string io" where
  "get_docker_image_for_java_version E java_version =
     (case py_int (int_max_str_digits E) java_version of
        Inr java_version_int \<Rightarrow>
          if 17 \<le> java_version_int then io_return image_17
          else if 13 \<le> java_version_int then io_return image_13
          else
            io_bind (logger WARNING (''No specific Docker image for Java '' @ java_version @
                       '', using Java 13 image'')) (\<lambda>_.
            io_return image_13)
      | Inl e \<Rightarrow>
          if kind e = ValueError then
            io_bind (logger ERROR (''Invalid Java version: '' @ java_version)) (\<lambda>_.
            io_return image_13)
          else io_raise (Exc e))"

subsection \<open>\<open>update_circleci_config\<close>\<close>

definition placeholder :: string where
  "placeholder = ''{{JAVA_DOCKER_IMAGE}}''"

definition update_circleci_config :: "env \<Rightarrow> updater \<Rightarrow> string \<Rightarrow> string \<Rightarrow> bool io" where
  "update_circleci_config E self repo_path java_version =
     (let config_dir = path_join repo_path ''.circleci'';
          config_file = path_join config_dir ''config.yml'' in
      io_bind (perform E (Makedirs config_dir)) (\<lambda>_.
      io_bind (get_docker_image_for_java_version E java_version) (\<lambda>docker_image.
      let config_content = py_replace (master_config_template self) placeholder docker_image in
      except_Exception
        (io_bind (perform E (OpenWrite config_file config_content)) (\<lambda>_.
         io_bind (logger INFO (''Updated CircleCI config for Java '' @ java_version @
                    '' with Docker image '' @ docker_image @ '' in '' @ repo_path)) (\<lambda>_.
         io_return True)))
        (\<lambda>e. io_bind (logger ERROR (''Error updating CircleCI config: '' @ text_of e)) (\<lambda>_.
              io_return False)))))"

subsection \<open>\<open>commit_and_push_changes\<close>\<close>

definition commit_and_push_changes :: "env \<Rightarrow> string \<Rightarrow> string \<Rightarrow> bool io" where
  "commit_and_push_changes E repo_path java_version =
     except_Exception
       (io_bind (perform E (GitRepo repo_path)) (\<lambda>_.
        io_bind (is_dirty E repo_path True True False) (\<lambda>dirty.
        if \<not> dirty then
          io_bind (logger INFO ''No changes to commit'') (\<lambda>_.
          io_return True)
        else
          io_bind (perform E (GitAdd repo_path ''.circleci/config.yml'')) (\<lambda>_.
          let commit_message = ''Update CircleCI config for Java '' @ java_version in
          io_bind (perform E (GitCommit repo_path commit_message)) (\<lambda>_.
          io_bind (perform E (GitPush repo_path)) (\<lambda>_.
          io_bind (logger INFO (''Changes committed and pushed: '' @ commit_message)) (\<lambda>_.
          io_return True)))))))
       (\<lambda>e. io_bind (logger ERROR (''Error committing changes: '' @ text_of e)) (\<lambda>_.
             io_return False))"

subsection \<open>\<open>process_repositories\<close> and \<open>main\<close>\<close>

text \<open>
  One turn of the loop.  \<open>if not x:\<close> holds for \<open>None\<close> and for the empty string.
\<close>

definition process_repository :: "env \<Rightarrow> updater \<Rightarrow> repo_entry \<Rightarrow> unit io" where
  "process_repository E self repo =
     io_bind (logger INFO (''Processing repository: '' @ url repo @ '', branch: '' @
                branch repo)) (\<lambda>_.
     io_bind (clone_repository E self (url repo) (branch repo)) (\<lambda>cloned.
     case (if truthy cloned then cloned else None) of
       None \<Rightarrow> logger ERROR (''Skipping '' @ url repo @ '' due to clone error'')
     | Some repo_path \<Rightarrow>
         io_bind (detect_java_version E repo_path) (\<lambda>detected.
         case (if truthy detected then detected else None) of
           None \<Rightarrow> logger WARNING (''Skipping '' @ url repo @ '' due to missing Java version'')
         | Some java_version \<Rightarrow>
             io_bind (update_circleci_config E self repo_path java_version) (\<lambda>updated.
             if updated then
               io_bind (commit_and_push_changes E repo_path java_version) (\<lambda>_.
               io_return ())
             else io_return ()))))"

fun process_each :: "env \<Rightarrow> updater \<Rightarrow> repo_entry list \<Rightarrow> unit io" where
  "process_each E self [] = io_return ()"
| "process_each E self (repo # repos) =
     io_bind (process_repository E self repo) (\<lambda>_. process_each E self repos)"

definition process_repositories :: "env \<Rightarrow> updater \<Rightarrow> unit io" where
  "process_repositories E self =
     io_bind (read_repositories E self) (\<lambda>repos. process_each E self repos)"

definition main :: "env \<Rightarrow> cli_args \<Rightarrow> unit io" where
  "main E args = io_bind (init E args) (\<lambda>updater. process_repositories E updater)"

text \<open>
  The exit status of the process: 0 when \<open>main\<close> returns, the argument of \<open>sys.exit\<close>,
  and 1 when an exception reaches the top level.
\<close>

fun exit_status :: "raised + unit \<Rightarrow> nat" where
  "exit_status (Inr u) = 0"
| "exit_status (Inl (SystemExit n)) = n"
| "exit_status (Inl (Exc e)) = 1"

definition attempts_checkout :: "event \<Rightarrow> bool" where
  "attempts_checkout ev =
     (case ev of
        GitRepo p \<Rightarrow> True
      | GitFetch p \<Rightarrow> True
      | GitCheckout p b \<Rightarrow> True
      | GitCheckoutNew p s b \<Rightarrow> True
      | GitPull p \<Rightarrow> True
      | GitCloneFrom u p b \<Rightarrow> True
      | _ \<Rightarrow> False)"

section \<open>Notions used by the properties\<close>

text \<open>The pattern matches at no position of \<open>pre @ t\<close> that lies inside \<open>pre\<close>.\<close>

fun no_match_before :: "node list \<Rightarrow> string \<Rightarrow> string \<Rightarrow> bool" where
  "no_match_before p [] t \<longleftrightarrow> True"
| "no_match_before p (x # pre) t \<longleftrightarrow>
     run p (x # pre @ t) Unset = None \<and> no_match_before p pre t"

text \<open>The text starts with a digit.\<close>

fun digit_follows :: "string \<Rightarrow> bool" where
  "digit_follows [] \<longleftrightarrow> False"
| "digit_follows (c # r) \<longleftrightarrow> is_digit c"

text \<open>
  In the checkout at \<open>repo_path\<close>, after the events \<open>tr\<close>, \<open>build.gradle\<close> exists and
  reading it gives \<open>content\<close>.
\<close>

definition descriptor_reads :: "env \<Rightarrow> event list \<Rightarrow> string \<Rightarrow> string \<Rightarrow> bool" where
  "descriptor_reads E tr repo_path content \<longleftrightarrow>
     (let gradle_file = path_join repo_path ''build.gradle'' in
      path_exists E tr gradle_file \<and>
      raises E (tr @ [PathExists gradle_file]) (OpenRead gradle_file) = None \<and>
      file_text E (tr @ [PathExists gradle_file]) gradle_file = content)"

definition decl_quoted_17 :: string where
  "decl_quoted_17 = ''sourceCompatibility = '' @ [CHR 0x27] @ ''17'' @ [CHR 0x27]"

definition decl_version_11 :: string where
  "decl_version_11 = ''sourceCompatibility = JavaVersion.VERSION_11''"

definition decl_dotted_18 :: string where
  "decl_dotted_18 = ''sourceCompatibility = 1.8''"

text \<open>The calls that publish: \<open>git add\<close>, \<open>git commit\<close>, \<open>git push\<close>.\<close>

definition is_publish_call :: "event \<Rightarrow> bool" where
  "is_publish_call ev =
     (case ev of GitAdd p f \<Rightarrow> True | GitCommit p m \<Rightarrow> True | GitPush p \<Rightarrow> True | _ \<Rightarrow> False)"

definition publish_calls :: "event list \<Rightarrow> event list" where
  "publish_calls tr = filter is_publish_call tr"

text \<open>The writes issued, each with its path and content, in order.\<close>

definition written_files :: "event list \<Rightarrow> (string \<times> string) list" where
  "written_files tr = concat (map (\<lambda>ev. case ev of OpenWrite p c \<Rightarrow> [(p, c)] | _ \<Rightarrow> []) tr)"

text \<open>
  An environment in which every call succeeds: every path exists, files and listings are
  empty, no token is set.  Concrete environments are obtained by updating its fields.
\<close>

definition quiet_env :: env where
  "quiet_env =
     \<lparr>raises = (\<lambda>tr ev. None), environ = (\<lambda>name. None), path_exists = (\<lambda>tr p. True),
      file_text = (\<lambda>tr p. []), csv_rows = (\<lambda>tr p. []), reference_names = (\<lambda>tr p. []),
      diff_cached = (\<lambda>tr p. []), diff_worktree = (\<lambda>tr p. []), untracked_files = (\<lambda>tr p. []),
      int_max_str_digits = 4300\<rparr>"


definition plain_updater :: updater where
  "plain_updater =
     \<lparr>repo_file = ''repos.csv'', workspace_dir = ''./workspace'',
      master_config_file = ''template.yml'', token = None,
      master_config_template = ''version: 2''\<rparr>"

text \<open>The quiet environment in which every file reads as \<open>t\<close>, and some descriptors.\<close>

definition env_with_text :: "string \<Rightarrow> env" where
  "env_with_text t = quiet_env\<lparr>file_text := (\<lambda>tr p. t)\<rparr>"

definition gradle_8_then_17 :: string where
  "gradle_8_then_17 = ''sourceCompatibility = 8'' @ [CHR 0x0A] @ decl_quoted_17"

definition gradle_11_then_17 :: string where
  "gradle_11_then_17 = decl_version_11 @ [CHR 0x0A] @ ''sourceCompatibility = 17''"

definition gradle_17_then_11 :: string where
  "gradle_17_then_11 = ''sourceCompatibility = 17'' @ [CHR 0x0A] @ decl_version_11"

definition gradle_version_110 :: string where
  "gradle_version_110 = decl_version_11 @ ''0''"

definition gradle_quoted :: string where
  "gradle_quoted = ''// app'' @ [CHR 0x0A] @ decl_quoted_17 @ [CHR 0x0A]"

definition gradle_symbolic :: string where
  "gradle_symbolic = ''// app'' @ [CHR 0x0A] @ decl_version_11 @ [CHR 0x0A]"

definition gradle_plain :: string where
  "gradle_plain = ''apply plugin: java''"

definition gradle_dotted :: string where
  "gradle_dotted = ''// app'' @ [CHR 0x0A] @ decl_dotted_18 @ [CHR 0x0A]"

definition gradle_17_then_dotted :: string where
  "gradle_17_then_dotted = ''sourceCompatibility = 17'' @ [CHR 0x0A] @ decl_dotted_18"

text \<open>
  The state of a checkout in which the config file has just been created and nothing else
  differs from the last commit, as the three queries of \<open>is_dirty\<close> see it after the
  events \<open>tr\<close>: no staged change, no change to a tracked file, and the config file as the
  only untracked file.
\<close>

definition untracked_config_only :: "env \<Rightarrow> event list \<Rightarrow> string \<Rightarrow> bool" where
  "untracked_config_only E tr repo_path \<longleftrightarrow>
     raises E tr (GitDiffCached repo_path) = None \<and>
     diff_cached E tr repo_path = [] \<and>
     raises E (tr @ [GitDiffCached repo_path]) (GitDiff repo_path) = None \<and>
     diff_worktree E (tr @ [GitDiffCached repo_path]) repo_path = [] \<and>
     untracked_files E (tr @ [GitDiffCached repo_path, GitDiff repo_path]) repo_path =
       [''.circleci/config.yml'']"

text \<open>Environments for a modified tracked file and for an untracked config file.\<close>

definition env_modified :: env where
  "env_modified = quiet_env\<lparr>diff_worktree := (\<lambda>tr p. [''.circleci/config.yml''])\<rparr>"

definition env_untracked :: env where
  "env_untracked = quiet_env\<lparr>untracked_files := (\<lambda>tr p. [''.circleci/config.yml''])\<rparr>"

text \<open>
  Command lines, and an environment with two repositories in the list where \<open>.circleci\<close>
  cannot be created in the first checkout (a regular file of that name is in the way).
\<close>

definition args_csv :: cli_args where
  "args_csv = \<lparr>arg_repo_file = ''repos.csv'', arg_master_config = ''template.yml'',
     arg_token = None, arg_workspace = ''./workspace''\<rparr>"

definition args_ini :: cli_args where
  "args_ini = args_csv\<lparr>arg_repo_file := ''repos.ini''\<rparr>"

definition env_config_dir_blocked :: env where
  "env_config_dir_blocked = quiet_env\<lparr>
     raises := (\<lambda>tr ev. if ev = Makedirs ''./workspace/a/.circleci''
                          then Some (Exn OSError ''[Errno 17] File exists'') else None),
     path_exists := (\<lambda>tr p. p = ''./workspace/a/build.gradle'' \<or> p = ''./workspace/b/build.gradle''),
     file_text := (\<lambda>tr p. if p = ''template.yml'' then ''image: {{JAVA_DOCKER_IMAGE}}''
                           else ''sourceCompatibility = 17''),
     csv_rows := (\<lambda>tr p.
       [[(''repository_url'', ''https://github.com/org/a.git''), (''branch'', ''main'')],
        [(''repository_url'', ''https://github.com/org/b.git''), (''branch'', ''main'')]])\<rparr>"

section \<open>Auxiliary facts\<close>

lemmas io_defs = io_return_def io_bind_def io_raise_def except_Exception_def logger_def
  ask_def perform_def os_path_exists_def

lemma py_int_raises_ValueError: "py_int lim s = Inl e \<Longrightarrow> kind e = ValueError"
  by (auto simp: py_int_def Let_def split: if_splits)

lemmas py_int_eval = py_int_def py_strip_def is_int_space_def is_digit_def decimal_value_def
  digit_value_def

lemma py_int_17: "py_int lim ''17'' = Inr 17"
  by (simp add: py_int_eval)

lemma py_int_13: "py_int lim ''13'' = Inr 13"
  by (simp add: py_int_eval)

lemma py_int_8: "py_int lim ''8'' = Inr 8"
  by (simp add: py_int_eval)

lemma py_int_1: "py_int lim ''1'' = Inr 1"
  by (simp add: py_int_eval)

lemma py_int_not_a_number: "\<exists>e. py_int lim ''not-a-number'' = Inl e"
  by (simp add: py_int_eval)

text \<open>The selector returns one of the two images and adds at most log lines.\<close>

lemma image_result:
  "\<exists>img logs. get_docker_image_for_java_version E v tr = (Inr img, tr @ logs) \<and>
      (img = image_17 \<or> img = image_13) \<and> (\<forall>ev\<in>set logs. \<exists>l m. ev = Log l m)"
proof (cases "py_int (int_max_str_digits E) v")
  case (Inl e)
  then have "kind e = ValueError" by (rule py_int_raises_ValueError)
  with Inl show ?thesis
    by (simp add: get_docker_image_for_java_version_def io_defs)
next
  case (Inr n)
  then show ?thesis
    by (simp add: get_docker_image_for_java_version_def io_defs)
qed

text \<open>The image does not depend on the events before the call.\<close>

lemma image_same:
  "fst (get_docker_image_for_java_version E v tr) =
   fst (get_docker_image_for_java_version E v tr')"
  by (simp add: get_docker_image_for_java_version_def io_defs split: sum.split)

text \<open>
  An information separator is not whitespace for \<open>int()\<close>, although \<open>\s\<close> matches it:
  with one before the digits the literal is invalid and the selector falls back to the
  Java 13 image, with an error logged.
\<close>

lemma py_int_separator: "\<exists>e. py_int lim (CHR 0x1F # ''17'') = Inl e"
  by (simp add: py_int_eval)

lemma image_after_separator:
  "get_docker_image_for_java_version E (CHR 0x1F # ''17'') tr =
     (Inr image_13, tr @ [Log ERROR (''Invalid Java version: '' @ CHR 0x1F # ''17'')])"
proof -
  obtain e where bad: "py_int (int_max_str_digits E) (CHR 0x1F # ''17'') = Inl e"
    using py_int_separator by blast
  then have "kind e = ValueError" by (rule py_int_raises_ValueError)
  with bad show ?thesis
    by (simp add: get_docker_image_for_java_version_def io_defs)
qed

lemma replace_from_absent: "\<not> contains old s \<Longrightarrow> replace_from old new s = s"
  by (induction old new s rule: replace_from.induct) auto

lemma contains_iff_sublist: "contains sub s \<longleftrightarrow> sublist sub s"
  by (induction s) (auto simp: sublist_Cons_right)

lemma placeholder_nonempty: "placeholder \<noteq> []"
  by (simp add: placeholder_def)

lemma render_absent: "\<not> contains placeholder t \<Longrightarrow> py_replace t placeholder img = t"
  by (simp add: py_replace_def placeholder_nonempty replace_from_absent)

lemma written_files_append: "written_files (a @ b) = written_files a @ written_files b"
  by (simp add: written_files_def)

lemma written_files_logs: "\<forall>ev\<in>set logs. \<exists>l m. ev = Log l m \<Longrightarrow> written_files logs = []"
  by (induction logs) (auto simp: written_files_def)

lemma written_files_simps:
  "written_files [] = []"
  "written_files (OpenWrite p c # tr) = (p, c) # written_files tr"
  "written_files (Log l m # tr) = written_files tr"
  "written_files (Makedirs d # tr) = written_files tr"
  by (simp_all add: written_files_def)

lemma image_result_quiet:
  "\<exists>img logs. get_docker_image_for_java_version E v tr = (Inr img, tr @ logs) \<and>
     (img = image_17 \<or> img = image_13) \<and> written_files logs = []"
proof -
  from image_result [of E v tr]
  obtain img logs where g: "get_docker_image_for_java_version E v tr = (Inr img, tr @ logs)"
    and i: "img = image_17 \<or> img = image_13" and l: "\<forall>ev\<in>set logs. \<exists>l m. ev = Log l m"
    by (elim exE conjE)
  have wl: "written_files logs = []" using l by (rule written_files_logs)
  show ?thesis using g i wl by (intro exI conjI)
qed

text \<open>\<open>update_circleci_config\<close>, step by step.\<close>

lemma update_unfold:
  "update_circleci_config E self rp v tr =
     (let dir = path_join rp ''.circleci''; file = path_join dir ''config.yml'' in
      case raises E tr (Makedirs dir) of
        Some e \<Rightarrow> (Inl (Exc e), tr @ [Makedirs dir])
      | None \<Rightarrow>
          (case get_docker_image_for_java_version E v (tr @ [Makedirs dir]) of
             (Inl e, tr2) \<Rightarrow> (Inl e, tr2)
           | (Inr img, tr2) \<Rightarrow>
               (let content = py_replace (master_config_template self) placeholder img in
                case raises E tr2 (OpenWrite file content) of
                  None \<Rightarrow> (Inr True, tr2 @ [OpenWrite file content,
                     Log INFO (''Updated CircleCI config for Java '' @ v @
                       '' with Docker image '' @ img @ '' in '' @ rp)])
                | Some e \<Rightarrow> (Inr False, tr2 @ [OpenWrite file content,
                     Log ERROR (''Error updating CircleCI config: '' @ text_of e)]))))"
  by (simp add: update_circleci_config_def Let_def io_defs split: option.split sum.split prod.split)

lemma update_writes:
  "\<exists>img. written_files (snd (update_circleci_config E self rp v tr)) =
      written_files tr @
        (if raises E tr (Makedirs (path_join rp ''.circleci'')) = None
         then [(path_join (path_join rp ''.circleci'') ''config.yml'',
                py_replace (master_config_template self) placeholder img)]
         else [])"
proof (cases "raises E tr (Makedirs (path_join rp ''.circleci''))")
  case (Some e)
  then have "written_files (snd (update_circleci_config E self rp v tr)) = written_files tr"
    by (simp add: update_unfold Let_def written_files_append written_files_simps)
  then show ?thesis using Some by simp
next
  case None
  obtain img logs where
    g: "get_docker_image_for_java_version E v (tr @ [Makedirs (path_join rp ''.circleci'')]) =
        (Inr img, (tr @ [Makedirs (path_join rp ''.circleci'')]) @ logs)"
    and wl: "written_files logs = []"
    using image_result_quiet [of E v "tr @ [Makedirs (path_join rp ''.circleci'')]"]
    by (elim exE conjE)
  have "written_files (snd (update_circleci_config E self rp v tr)) =
      written_files tr @ [(path_join (path_join rp ''.circleci'') ''config.yml'',
          py_replace (master_config_template self) placeholder img)]"
    unfolding update_unfold Let_def None g
    by (cases "raises E ((tr @ [Makedirs (path_join rp ''.circleci'')]) @ logs)
           (OpenWrite (path_join (path_join rp ''.circleci'') ''config.yml'')
              (py_replace (master_config_template self) placeholder img))")
       (simp_all add: written_files_append written_files_simps wl)
  then have "written_files (snd (update_circleci_config E self rp v tr)) =
      written_files tr @
        (if raises E tr (Makedirs (path_join rp ''.circleci'')) = None
         then [(path_join (path_join rp ''.circleci'') ''config.yml'',
                py_replace (master_config_template self) placeholder img)]
         else [])"
    using None by simp
  then show ?thesis by (rule exI)
qed

lemma re_search_skip: "no_match_before p pre t \<Longrightarrow> re_search p (pre @ t) = re_search p t"
  by (induction pre) auto

lemma re_search_head: "run p t Unset = Some m \<Longrightarrow> re_search p t = Some m"
  by (cases t) auto

lemma re_search_first:
  "no_match_before p pre t \<Longrightarrow> run p t Unset = Some m \<Longrightarrow> re_search p (pre @ t) = Some m"
  by (simp add: re_search_skip re_search_head)

lemmas pattern_eval = source_compat_pattern_def java_version_pattern_def literal_def
  is_space_def is_digit_def

lemma run_quoted_17: "run source_compat_pattern (decl_quoted_17 @ post) Unset = Some (Closed ''17'')"
  by (simp add: pattern_eval decl_quoted_17_def)

lemma run_dotted_18: "run source_compat_pattern (decl_dotted_18 @ post) Unset = Some (Closed ''1'')"
  by (simp add: pattern_eval decl_dotted_18_def)

lemma run_version_11:
  "\<not> digit_follows post \<Longrightarrow>
   run java_version_pattern (decl_version_11 @ post) Unset = Some (Closed ''11'')"
  by (cases post) (simp_all add: pattern_eval decl_version_11_def)

lemma detect_reads:
  "descriptor_reads E tr rp content \<Longrightarrow> fst (detect_java_version E rp tr) = Inr (version_in content)"
  by (auto simp: descriptor_reads_def detect_java_version_def Let_def io_defs scan_content_def
      version_in_def split: option.splits)

lemma reads_env_with_text: "descriptor_reads (env_with_text t) tr rp t"
  by (simp add: descriptor_reads_def env_with_text_def quiet_env_def)

lemmas gradle_texts = gradle_8_then_17_def gradle_11_then_17_def gradle_17_then_11_def
  gradle_version_110_def gradle_17_then_dotted_def gradle_quoted_def gradle_symbolic_def
  gradle_plain_def gradle_dotted_def decl_quoted_17_def decl_version_11_def decl_dotted_18_def

lemma detect_env_with_text:
  "fst (detect_java_version (env_with_text t) rp tr) = Inr (version_in t)"
  using reads_env_with_text by (rule detect_reads)

lemma is_dirty_publish: "publish_calls (snd (is_dirty E rp a b c tr)) = publish_calls tr"
  by (auto simp: is_dirty_def io_defs publish_calls_def is_publish_call_def split: option.splits)

lemma is_dirty_default:
  "is_dirty E rp True True False tr =
     (case raises E tr (GitDiffCached rp) of
        Some e \<Rightarrow> (Inl (Exc e), tr @ [GitDiffCached rp])
      | None \<Rightarrow>
          if diff_cached E tr rp \<noteq> [] then (Inr True, tr @ [GitDiffCached rp])
          else (case raises E (tr @ [GitDiffCached rp]) (GitDiff rp) of
                  Some e \<Rightarrow> (Inl (Exc e), tr @ [GitDiffCached rp, GitDiff rp])
                | None \<Rightarrow> (Inr (diff_worktree E (tr @ [GitDiffCached rp]) rp \<noteq> []),
                           tr @ [GitDiffCached rp, GitDiff rp])))"
  by (simp add: is_dirty_def io_defs split: option.split)

lemma commit_unfold:
  assumes opens: "raises E tr (GitRepo rp) = None"
    and check: "is_dirty E rp True True False (tr @ [GitRepo rp]) = (Inr dirty, tr1)"
  shows "commit_and_push_changes E rp v tr =
     (let add = GitAdd rp ''.circleci/config.yml'';
          msg = ''Update CircleCI config for Java '' @ v;
          commit = GitCommit rp msg in
      if \<not> dirty then (Inr True, tr1 @ [Log INFO ''No changes to commit''])
      else case raises E tr1 add of
        Some e \<Rightarrow> (Inr False, tr1 @ [add, Log ERROR (''Error committing changes: '' @ text_of e)])
      | None \<Rightarrow>
         (case raises E (tr1 @ [add]) commit of
            Some e \<Rightarrow> (Inr False, tr1 @ [add, commit,
                         Log ERROR (''Error committing changes: '' @ text_of e)])
          | None \<Rightarrow>
             (case raises E (tr1 @ [add, commit]) (GitPush rp) of
                Some e \<Rightarrow> (Inr False, tr1 @ [add, commit, GitPush rp,
                             Log ERROR (''Error committing changes: '' @ text_of e)])
              | None \<Rightarrow> (Inr True, tr1 @ [add, commit, GitPush rp,
                             Log INFO (''Changes committed and pushed: '' @ msg)]))))"
  using opens check
  by (simp add: commit_and_push_changes_def io_defs Let_def split: option.split)

lemma publish_calls_simps:
  "publish_calls [] = []"
  "publish_calls (a @ b) = publish_calls a @ publish_calls b"
  "publish_calls (GitAdd p f # tr) = GitAdd p f # publish_calls tr"
  "publish_calls (GitCommit p m # tr) = GitCommit p m # publish_calls tr"
  "publish_calls (GitPush p # tr) = GitPush p # publish_calls tr"
  "publish_calls (Log l m # tr) = publish_calls tr"
  "publish_calls (GitRepo p # tr) = publish_calls tr"
  by (simp_all add: publish_calls_def is_publish_call_def)

lemma untracked_seen_when_asked:
  assumes state: "untracked_config_only E tr rp"
    and ok: "raises E (tr @ [GitDiffCached rp, GitDiff rp]) (GitUntracked rp) = None"
  shows "fst (is_dirty E rp True True True tr) = Inr True"
  using state ok by (simp add: is_dirty_def io_defs untracked_config_only_def)

text \<open>A match of either pattern starts with the keyword; a text without it gives no version.\<close>

lemma run_literal: "run (literal lit @ r) s c = Some m \<Longrightarrow> prefix lit s"
proof (induction lit arbitrary: s c)
  case Nil
  show ?case by simp
next
  case (Cons x lit)
  then show ?case
    by (cases s) (auto simp: literal_def split: if_splits)
qed

lemma search_literal: "re_search (literal lit @ r) s = Some m \<Longrightarrow> contains lit s"
proof (induction s)
  case Nil
  then show ?case using run_literal [of lit r "[]" Unset m] by simp
next
  case (Cons x s)
  then show ?case
    using run_literal [of lit r "x # s" Unset]
    by (auto split: option.splits)
qed

lemma no_keyword_not_detected:
  assumes "\<not> contains ''sourceCompatibility'' content"
  shows "version_in content = None"
proof -
  have "re_search source_compat_pattern content = None"
    using assms search_literal [of "''sourceCompatibility''" _ content]
    unfolding source_compat_pattern_def by (cases "re_search (literal ''sourceCompatibility'' @
     [Item Space ZeroOrMore, Item (Lit CHR ''='') Once, Item Space ZeroOrMore,
      Item quote_class Optional, GroupStart, Item Digit OneOrMore, GroupEnd,
      Item quote_class Optional]) content") auto
  moreover have "re_search java_version_pattern content = None"
    using assms search_literal [of "''sourceCompatibility''" _ content]
    unfolding java_version_pattern_def by (cases "re_search (literal ''sourceCompatibility'' @
     [Item Space ZeroOrMore, Item (Lit CHR ''='') Once, Item Space ZeroOrMore] @
     literal ''JavaVersion.VERSION_'' @
     [GroupStart, Item Digit OneOrMore, GroupEnd]) content") auto
  ultimately show ?thesis by (simp add: version_in_def)
qed

text \<open>
  Which steps can end the run.  Every step of the loop catches what it raises, except the
  \<open>os.makedirs\<close> of \<open>update_circleci_config\<close>; when no \<open>os.makedirs\<close> raises, the run
  either returns or ends by the \<open>sys.exit(1)\<close> of the template or of the list.
\<close>

lemma bind_returns:
  assumes "\<And>tr. \<not> isl (fst (m tr))" and "\<And>x tr. \<not> isl (fst (f x tr))"
  shows "\<not> isl (fst (io_bind m f tr))"
proof (cases "m tr")
  case (Pair r tr')
  with assms(1) [of tr] obtain x where "r = Inr x" by (cases r) auto
  with Pair assms(2) [of x tr'] show ?thesis by (simp add: io_bind_def)
qed

lemma logger_returns: "\<not> isl (fst (logger l m tr))"
  by (simp add: logger_def)

lemma clone_returns: "\<not> isl (fst (clone_repository E self u b tr))"
  by (simp add: clone_repository_def Let_def io_defs split: option.split prod.split sum.split raised.split)

lemma detect_returns: "\<not> isl (fst (detect_java_version E rp tr))"
  by (simp add: detect_java_version_def scan_content_def Let_def io_defs split: option.split)

lemma commit_returns: "\<not> isl (fst (commit_and_push_changes E rp v tr))"
  by (simp add: commit_and_push_changes_def is_dirty_def Let_def io_defs split: option.split)

lemma update_returns:
  assumes "\<And>tr d. raises E tr (Makedirs d) = None"
  shows "\<not> isl (fst (update_circleci_config E self rp v tr))"
proof -
  obtain img logs where
    g: "get_docker_image_for_java_version E v (tr @ [Makedirs (path_join rp ''.circleci'')]) =
        (Inr img, (tr @ [Makedirs (path_join rp ''.circleci'')]) @ logs)"
    using image_result_quiet [of E v "tr @ [Makedirs (path_join rp ''.circleci'')]"]
    by (elim exE conjE)
  show ?thesis
    unfolding update_unfold Let_def assms g
    by (simp split: option.split)
qed


lemma process_repository_returns:
  assumes mk: "\<And>tr d. raises E tr (Makedirs d) = None"
  shows "\<not> isl (fst (process_repository E self repo tr))"
  unfolding process_repository_def
  by (intro bind_returns logger_returns clone_returns detect_returns commit_returns
        update_returns [OF mk])
     (simp_all add: logger_returns io_return_def bind_returns commit_returns detect_returns
        update_returns [OF mk] split: option.split)

lemma process_each_returns:
  assumes mk: "\<And>tr d. raises E tr (Makedirs d) = None"
  shows "\<not> isl (fst (process_each E self repos tr))"
proof (induction repos arbitrary: tr)
  case Nil
  show ?case by (simp add: io_return_def)
next
  case (Cons repo repos)
  show ?case
    unfolding process_each.simps
    by (rule bind_returns [OF process_repository_returns [OF mk] Cons.IH])
qed

lemma bind_exits:
  assumes "\<And>tr. fst (m tr) = Inl (SystemExit 1) \<or> \<not> isl (fst (m tr))"
    and "\<And>x tr. fst (f x tr) = Inl (SystemExit 1) \<or> \<not> isl (fst (f x tr))"
  shows "fst (io_bind m f tr) = Inl (SystemExit 1) \<or> \<not> isl (fst (io_bind m f tr))"
proof (cases "m tr")
  case (Pair r tr')
  show ?thesis
  proof (cases r)
    case (Inl e)
    with Pair assms(1) [of tr] show ?thesis by (simp add: io_bind_def)
  next
    case (Inr x)
    with Pair assms(2) [of x tr'] show ?thesis by (simp add: io_bind_def)
  qed
qed

lemma init_exits:
  assumes mk: "\<And>tr d. raises E tr (Makedirs d) = None"
  shows "fst (init E args tr) = Inl (SystemExit 1) \<or> \<not> isl (fst (init E args tr))"
  by (simp add: init_def load_master_config_template_def Let_def io_defs mk split: option.split)

lemma read_exits:
  "fst (read_repositories E self tr) = Inl (SystemExit 1) \<or>
   \<not> isl (fst (read_repositories E self tr))"
  by (simp add: read_repositories_def Let_def io_defs split: option.split sum.split)

lemma failures_contained:
  assumes mk: "\<And>tr d. raises E tr (Makedirs d) = None"
  shows "fst (main E args tr) = Inl (SystemExit 1) \<or> \<not> isl (fst (main E args tr))"
  unfolding main_def process_repositories_def
  by (intro bind_exits init_exits [OF mk] read_exits disjI2 process_each_returns [OF mk])

section \<open>The image selector\<close>

text \<open>
  Claim C1.  On every string the image selector returns an image, never an exception, and
  the image is one of the two known ones; the image depends on the string only, not on
  what happened before the call; it is the Java 17 image for \<open>17\<close> and the Java 13
  image for \<open>13\<close>, for \<open>8\<close> and for \<open>not-a-number\<close>.
\<close>

theorem select_image_total:
  "(\<exists>img. fst (get_docker_image_for_java_version E v tr) = Inr img \<and>
          (img = image_17 \<or> img = image_13))
   \<and> fst (get_docker_image_for_java_version E v tr) =
       fst (get_docker_image_for_java_version E v tr')
   \<and> fst (get_docker_image_for_java_version E ''17'' tr) = Inr image_17
   \<and> fst (get_docker_image_for_java_version E ''13'' tr) = Inr image_13
   \<and> fst (get_docker_image_for_java_version E ''8'' tr) = Inr image_13
   \<and> fst (get_docker_image_for_java_version E ''not-a-number'' tr) = Inr image_13"
proof -
  obtain e where nan: "py_int (int_max_str_digits E) ''not-a-number'' = Inl e"
    using py_int_not_a_number by blast
  then have k: "kind e = ValueError" by (rule py_int_raises_ValueError)
  have "fst (get_docker_image_for_java_version E ''not-a-number'' tr) = Inr image_13"
    using nan k by (simp add: get_docker_image_for_java_version_def io_defs)
  moreover have "fst (get_docker_image_for_java_version E ''17'' tr) = Inr image_17"
    by (simp add: get_docker_image_for_java_version_def io_defs py_int_17)
  moreover have "fst (get_docker_image_for_java_version E ''13'' tr) = Inr image_13"
    by (simp add: get_docker_image_for_java_version_def io_defs py_int_13)
  moreover have "fst (get_docker_image_for_java_version E ''8'' tr) = Inr image_13"
    by (simp add: get_docker_image_for_java_version_def io_defs py_int_8)
  moreover have "\<exists>img. fst (get_docker_image_for_java_version E v tr) = Inr img \<and>
          (img = image_17 \<or> img = image_13)"
  proof -
    from image_result [of E v tr]
    obtain img logs where "get_docker_image_for_java_version E v tr = (Inr img, tr @ logs)"
      and "img = image_17 \<or> img = image_13"
      by (elim exE conjE)
    then show ?thesis by simp
  qed
  moreover have "fst (get_docker_image_for_java_version E v tr) =
       fst (get_docker_image_for_java_version E v tr')"
    by (rule image_same)
  ultimately show ?thesis by (intro conjI)
qed

section \<open>The name of the checkout\<close>

text \<open>
  Claim C4.  The claim says that only a trailing \<open>.git\<close> is removed from the last
  segment of the URL.  The code removes every occurrence of \<open>.git\<close> in that segment: a
  GitHub Pages repository \<open>octocat.github.io\<close> is checked out as \<open>octocathub.io\<close>.
\<close>

theorem repo_name_loses_inner_git:
  "repo_name_of ''https://github.com/octocat/octocat.github.io.git'' = ''octocathub.io''"
  by (simp add: repo_name_of_def py_replace_def)

section \<open>Rendering\<close>

text \<open>
  Claim C10.  When the template has no occurrence of the placeholder, the rendered
  content is the template itself, for every image.  So \<open>update_circleci_config\<close>,
  whatever the version and the environment, issues exactly one write when the config
  directory can be made, of the config file with the template as its content, and no
  write otherwise.
\<close>

theorem render_without_placeholder:
  "\<not> contains placeholder (master_config_template self) \<Longrightarrow>
     py_replace (master_config_template self) placeholder img = master_config_template self \<and>
     written_files (snd (update_circleci_config E self rp v tr)) =
       written_files tr @
         (if raises E tr (Makedirs (path_join rp ''.circleci'')) = None
          then [(path_join (path_join rp ''.circleci'') ''config.yml'',
                 master_config_template self)]
          else [])"
proof -
  assume absent: "\<not> contains placeholder (master_config_template self)"
  have r: "\<And>img. py_replace (master_config_template self) placeholder img =
      master_config_template self"
    using absent by (rule render_absent)
  from update_writes [of E self rp v tr] show ?thesis
    unfolding r by (elim exE) (simp add: r)
qed

theorem render_without_placeholder_witness:
  "\<not> contains placeholder (master_config_template plain_updater) \<and>
   py_replace (master_config_template plain_updater) placeholder image_17 =
     master_config_template plain_updater \<and>
   written_files (snd (update_circleci_config quiet_env plain_updater ''w/a'' ''17'' [])) =
     [(''w/a/.circleci/config.yml'', ''version: 2'')]"
proof -
  have absent: "\<not> contains placeholder (master_config_template plain_updater)"
    by (simp add: plain_updater_def placeholder_def)
  have ok: "raises quiet_env [] (Makedirs (path_join ''w/a'' ''.circleci'')) = None"
    by (simp add: quiet_env_def)
  show ?thesis
    using absent ok
      render_without_placeholder [OF absent, of image_17 quiet_env "''w/a''" "''17''" "[]"]
    by (simp add: plain_updater_def path_join_def written_files_def)
qed

section \<open>Version detection\<close>

text \<open>
  Claim C2, as amended.  A descriptor that merely contains one of the two declarations
  may hold an earlier declaration, which then decides.  What holds: when the first place
  where the numeric pattern matches is a declaration \<open>sourceCompatibility = '17'\<close>, the
  detector returns \<open>17\<close>; when the numeric pattern matches nowhere and the first place
  where the symbolic pattern matches is \<open>sourceCompatibility = JavaVersion.VERSION_11\<close>
  with no further digit after it, the detector returns \<open>11\<close>; when neither pattern
  matches, it returns \<open>None\<close>.
\<close>

theorem detect_first_declaration:
  assumes reads: "descriptor_reads E tr rp content"
  shows "(content = pre @ decl_quoted_17 @ post \<and>
          no_match_before source_compat_pattern pre (decl_quoted_17 @ post) \<longrightarrow>
            fst (detect_java_version E rp tr) = Inr (Some ''17''))
       \<and> (content = pre @ decl_version_11 @ post \<and>
          re_search source_compat_pattern content = None \<and>
          no_match_before java_version_pattern pre (decl_version_11 @ post) \<and>
          \<not> digit_follows post \<longrightarrow>
            fst (detect_java_version E rp tr) = Inr (Some ''11''))
       \<and> (re_search source_compat_pattern content = None \<and>
          re_search java_version_pattern content = None \<longrightarrow>
            fst (detect_java_version E rp tr) = Inr None)"
proof -
  have d: "fst (detect_java_version E rp tr) = Inr (version_in content)"
    using reads by (rule detect_reads)
  have a: "fst (detect_java_version E rp tr) = Inr (Some ''17'')"
    if "content = pre @ decl_quoted_17 @ post"
      and "no_match_before source_compat_pattern pre (decl_quoted_17 @ post)"
  proof -
    have "re_search source_compat_pattern content = Some (Closed ''17'')"
      using that re_search_first [OF that(2) run_quoted_17] by simp
    then show ?thesis by (simp add: d version_in_def)
  qed
  have b: "fst (detect_java_version E rp tr) = Inr (Some ''11'')"
    if "content = pre @ decl_version_11 @ post"
      and "re_search source_compat_pattern content = None"
      and "no_match_before java_version_pattern pre (decl_version_11 @ post)"
      and "\<not> digit_follows post"
  proof -
    have "re_search java_version_pattern content = Some (Closed ''11'')"
      using that(1) re_search_first [OF that(3) run_version_11 [OF that(4)]] by simp
    then show ?thesis using that(2) by (simp add: d version_in_def)
  qed
  have c: "fst (detect_java_version E rp tr) = Inr None"
    if "re_search source_compat_pattern content = None"
      and "re_search java_version_pattern content = None"
    using that by (simp add: d version_in_def)
  show ?thesis using a b c by blast
qed


theorem detect_first_declaration_witness:
  "descriptor_reads (env_with_text gradle_quoted) [] ''w/a'' gradle_quoted \<and>
   gradle_quoted = (''// app'' @ [CHR 0x0A]) @ decl_quoted_17 @ [CHR 0x0A] \<and>
   no_match_before source_compat_pattern (''// app'' @ [CHR 0x0A]) (decl_quoted_17 @ [CHR 0x0A]) \<and>
   fst (detect_java_version (env_with_text gradle_quoted) ''w/a'' []) = Inr (Some ''17'') \<and>
   descriptor_reads (env_with_text gradle_symbolic) [] ''w/a'' gradle_symbolic \<and>
   gradle_symbolic = (''// app'' @ [CHR 0x0A]) @ decl_version_11 @ [CHR 0x0A] \<and>
   re_search source_compat_pattern gradle_symbolic = None \<and>
   no_match_before java_version_pattern (''// app'' @ [CHR 0x0A]) (decl_version_11 @ [CHR 0x0A]) \<and>
   \<not> digit_follows [CHR 0x0A] \<and>
   fst (detect_java_version (env_with_text gradle_symbolic) ''w/a'' []) = Inr (Some ''11'') \<and>
   descriptor_reads (env_with_text gradle_plain) [] ''w/a'' gradle_plain \<and>
   re_search source_compat_pattern gradle_plain = None \<and>
   re_search java_version_pattern gradle_plain = None \<and>
   fst (detect_java_version (env_with_text gradle_plain) ''w/a'' []) = Inr None"
proof -
  have q1: "gradle_quoted = (''// app'' @ [CHR 0x0A]) @ decl_quoted_17 @ [CHR 0x0A]"
    by (simp add: gradle_quoted_def)
  have q2: "no_match_before source_compat_pattern (''// app'' @ [CHR 0x0A]) (decl_quoted_17 @ [CHR 0x0A])"
    by (simp add: pattern_eval decl_quoted_17_def)
  have s1: "gradle_symbolic = (''// app'' @ [CHR 0x0A]) @ decl_version_11 @ [CHR 0x0A]"
    by (simp add: gradle_symbolic_def)
  have s2: "re_search source_compat_pattern gradle_symbolic = None"
    by (simp add: pattern_eval gradle_texts)
  have s3: "no_match_before java_version_pattern (''// app'' @ [CHR 0x0A]) (decl_version_11 @ [CHR 0x0A])"
    by (simp add: pattern_eval decl_version_11_def)
  have s4: "\<not> digit_follows [CHR 0x0A]"
    by (simp add: is_digit_def)
  have p1: "re_search source_compat_pattern gradle_plain = None"
    by (simp add: pattern_eval gradle_texts)
  have p2: "re_search java_version_pattern gradle_plain = None"
    by (simp add: pattern_eval gradle_texts)
  note t1 = detect_first_declaration [OF reads_env_with_text [of gradle_quoted "[]" "''w/a''"],
      of "''// app'' @ [CHR 0x0A]" "[CHR 0x0A]"]
  note t2 = detect_first_declaration [OF reads_env_with_text [of gradle_symbolic "[]" "''w/a''"],
      of "''// app'' @ [CHR 0x0A]" "[CHR 0x0A]"]
  note t3 = detect_first_declaration [OF reads_env_with_text [of gradle_plain "[]" "''w/a''"]]
  have r1: "fst (detect_java_version (env_with_text gradle_quoted) ''w/a'' []) = Inr (Some ''17'')"
    using t1 q1 q2 by blast
  have r2: "fst (detect_java_version (env_with_text gradle_symbolic) ''w/a'' []) = Inr (Some ''11'')"
    using t2 s1 s2 s3 s4 by blast
  have r3: "fst (detect_java_version (env_with_text gradle_plain) ''w/a'' []) = Inr None"
    using t3 p1 p2 by blast
  show ?thesis
    using q1 q2 s1 s2 s3 s4 p1 p2 r1 r2 r3 reads_env_with_text by (intro conjI)
qed


text \<open>
  The claim C2 as stated fails: a descriptor with \<open>sourceCompatibility = 8\<close> before
  \<open>sourceCompatibility = '17'\<close> gives \<open>8\<close>; one with the symbolic declaration of 11
  before \<open>sourceCompatibility = 17\<close> gives \<open>17\<close>; and \<open>VERSION_110\<close>, which contains
  \<open>VERSION_11\<close>, gives \<open>110\<close>.
\<close>

theorem detect_containing_counterexample:
  "contains decl_quoted_17 gradle_8_then_17 \<and>
   descriptor_reads (env_with_text gradle_8_then_17) [] ''w/a'' gradle_8_then_17 \<and>
   fst (detect_java_version (env_with_text gradle_8_then_17) ''w/a'' []) = Inr (Some ''8'') \<and>
   contains decl_version_11 gradle_11_then_17 \<and>
   descriptor_reads (env_with_text gradle_11_then_17) [] ''w/a'' gradle_11_then_17 \<and>
   fst (detect_java_version (env_with_text gradle_11_then_17) ''w/a'' []) = Inr (Some ''17'') \<and>
   contains decl_version_11 gradle_version_110 \<and>
   descriptor_reads (env_with_text gradle_version_110) [] ''w/a'' gradle_version_110 \<and>
   fst (detect_java_version (env_with_text gradle_version_110) ''w/a'' []) = Inr (Some ''110'')"
proof -
  have "contains decl_quoted_17 gradle_8_then_17"
    by (simp add: gradle_texts)
  moreover have "contains decl_version_11 gradle_11_then_17"
    by (simp add: gradle_texts)
  moreover have "contains decl_version_11 gradle_version_110"
    by (simp add: gradle_texts)
  moreover have "version_in gradle_8_then_17 = Some ''8''"
    by (simp add: version_in_def gradle_texts pattern_eval)
  moreover have "version_in gradle_11_then_17 = Some ''17''"
    by (simp add: version_in_def gradle_texts pattern_eval)
  moreover have "version_in gradle_version_110 = Some ''110''"
    by (simp add: version_in_def gradle_texts pattern_eval)
  ultimately show ?thesis
    by (simp add: detect_env_with_text reads_env_with_text)
qed


text \<open>
  Claim C7.  The numeric pattern is searched first, over the whole text, and the value
  of its leftmost match is returned, whatever the symbolic pattern matches and wherever;
  in particular when both patterns match, the numeric one decides.  The symbolic pattern
  is consulted only when the numeric one matches nowhere, and then the value of its
  leftmost match is returned.  The result is a single optional value.
\<close>

theorem first_syntax_wins:
  assumes reads: "descriptor_reads E tr rp content"
  shows "(content = pre @ t \<and> no_match_before source_compat_pattern pre t \<and>
          run source_compat_pattern t Unset = Some m \<longrightarrow>
            fst (detect_java_version E rp tr) = Inr (group1 m))
       \<and> (re_search source_compat_pattern content = Some m1 \<and>
          re_search java_version_pattern content = Some m2 \<longrightarrow>
            fst (detect_java_version E rp tr) = Inr (group1 m1))
       \<and> (re_search source_compat_pattern content = None \<and>
          content = pre @ t \<and> no_match_before java_version_pattern pre t \<and>
          run java_version_pattern t Unset = Some m \<longrightarrow>
            fst (detect_java_version E rp tr) = Inr (group1 m))"
proof -
  have d: "fst (detect_java_version E rp tr) = Inr (version_in content)"
    using reads by (rule detect_reads)
  have a: "fst (detect_java_version E rp tr) = Inr (group1 m)"
    if "content = pre @ t" and "no_match_before source_compat_pattern pre t"
      and "run source_compat_pattern t Unset = Some m"
  proof -
    have "re_search source_compat_pattern content = Some m"
      using that(1) re_search_first [OF that(2) that(3)] by simp
    then show ?thesis by (simp add: d version_in_def)
  qed
  have b: "fst (detect_java_version E rp tr) = Inr (group1 m1)"
    if "re_search source_compat_pattern content = Some m1"
    using that by (simp add: d version_in_def)
  have c: "fst (detect_java_version E rp tr) = Inr (group1 m)"
    if "re_search source_compat_pattern content = None"
      and "content = pre @ t" and "no_match_before java_version_pattern pre t"
      and "run java_version_pattern t Unset = Some m"
  proof -
    have "re_search java_version_pattern content = Some m"
      using that(2) re_search_first [OF that(3) that(4)] by simp
    then show ?thesis using that(1) by (simp add: d version_in_def)
  qed
  show ?thesis using a b c by blast
qed


theorem first_syntax_wins_witness:
  "descriptor_reads (env_with_text gradle_11_then_17) [] ''w/a'' gradle_11_then_17 \<and>
   gradle_11_then_17 = (decl_version_11 @ [CHR 0x0A]) @ ''sourceCompatibility = 17'' \<and>
   no_match_before source_compat_pattern (decl_version_11 @ [CHR 0x0A]) ''sourceCompatibility = 17'' \<and>
   run source_compat_pattern ''sourceCompatibility = 17'' Unset = Some (Closed ''17'') \<and>
   re_search java_version_pattern gradle_11_then_17 = Some (Closed ''11'') \<and>
   fst (detect_java_version (env_with_text gradle_11_then_17) ''w/a'' []) = Inr (Some ''17'') \<and>
   descriptor_reads (env_with_text gradle_17_then_11) [] ''w/a'' gradle_17_then_11 \<and>
   re_search source_compat_pattern gradle_17_then_11 = Some (Closed ''17'') \<and>
   re_search java_version_pattern gradle_17_then_11 = Some (Closed ''11'') \<and>
   fst (detect_java_version (env_with_text gradle_17_then_11) ''w/a'' []) = Inr (Some ''17'') \<and>
   descriptor_reads (env_with_text gradle_symbolic) [] ''w/a'' gradle_symbolic \<and>
   re_search source_compat_pattern gradle_symbolic = None \<and>
   gradle_symbolic = (''// app'' @ [CHR 0x0A]) @ decl_version_11 @ [CHR 0x0A] \<and>
   no_match_before java_version_pattern (''// app'' @ [CHR 0x0A]) (decl_version_11 @ [CHR 0x0A]) \<and>
   run java_version_pattern (decl_version_11 @ [CHR 0x0A]) Unset = Some (Closed ''11'') \<and>
   fst (detect_java_version (env_with_text gradle_symbolic) ''w/a'' []) = Inr (Some ''11'')"
proof -
  have a1: "gradle_11_then_17 = (decl_version_11 @ [CHR 0x0A]) @ ''sourceCompatibility = 17''"
    by (simp add: gradle_11_then_17_def)
  have a2: "no_match_before source_compat_pattern (decl_version_11 @ [CHR 0x0A])
      ''sourceCompatibility = 17''"
    by (simp add: pattern_eval decl_version_11_def)
  have a3: "run source_compat_pattern ''sourceCompatibility = 17'' Unset = Some (Closed ''17'')"
    by (simp add: pattern_eval)
  have a4: "re_search java_version_pattern gradle_11_then_17 = Some (Closed ''11'')"
    by (simp add: pattern_eval gradle_texts)
  have b1: "re_search source_compat_pattern gradle_17_then_11 = Some (Closed ''17'')"
    by (simp add: pattern_eval gradle_texts)
  have b2: "re_search java_version_pattern gradle_17_then_11 = Some (Closed ''11'')"
    by (simp add: pattern_eval gradle_texts)
  have c1: "re_search source_compat_pattern gradle_symbolic = None"
    by (simp add: pattern_eval gradle_texts)
  have c2: "gradle_symbolic = (''// app'' @ [CHR 0x0A]) @ decl_version_11 @ [CHR 0x0A]"
    by (simp add: gradle_symbolic_def)
  have c3: "no_match_before java_version_pattern (''// app'' @ [CHR 0x0A])
      (decl_version_11 @ [CHR 0x0A])"
    by (simp add: pattern_eval decl_version_11_def)
  have c4: "run java_version_pattern (decl_version_11 @ [CHR 0x0A]) Unset = Some (Closed ''11'')"
    by (simp add: pattern_eval decl_version_11_def)
  note t1 = first_syntax_wins [OF reads_env_with_text [of gradle_11_then_17 "[]" "''w/a''"],
      of "decl_version_11 @ [CHR 0x0A]" "''sourceCompatibility = 17''" "Closed ''17''"]
  note t2 = first_syntax_wins [OF reads_env_with_text [of gradle_17_then_11 "[]" "''w/a''"],
      of _ _ _ "Closed ''17''" "Closed ''11''"]
  note t3 = first_syntax_wins [OF reads_env_with_text [of gradle_symbolic "[]" "''w/a''"],
      of "''// app'' @ [CHR 0x0A]" "decl_version_11 @ [CHR 0x0A]" "Closed ''11''"]
  have r1: "fst (detect_java_version (env_with_text gradle_11_then_17) ''w/a'' []) =
      Inr (group1 (Closed ''17''))"
    using t1 a1 a2 a3 by blast
  have r2: "fst (detect_java_version (env_with_text gradle_17_then_11) ''w/a'' []) =
      Inr (group1 (Closed ''17''))"
    using t2 b1 b2 by blast
  have r3: "fst (detect_java_version (env_with_text gradle_symbolic) ''w/a'' []) =
      Inr (group1 (Closed ''11''))"
    using t3 c1 c2 c3 c4 by blast
  show ?thesis
    using a1 a2 a3 a4 b1 b2 c1 c2 c3 c4 r1 r2 r3 reads_env_with_text
    by (simp del: append_assoc)
qed

text \<open>
  Claim C8, as amended.  A descriptor that contains \<open>sourceCompatibility = 1.8\<close> may
  hold an earlier numeric declaration, which then decides.  What holds: when the first
  place where the numeric pattern matches is the declaration \<open>sourceCompatibility = 1.8\<close>,
  the detector returns \<open>1\<close>, the digits before the dot; and for \<open>1\<close> the selector
  returns the Java 13 image and logs a warning.
\<close>

theorem dotted_declaration_reads_as_1:
  assumes reads: "descriptor_reads E tr rp (pre @ decl_dotted_18 @ post)"
    and first: "no_match_before source_compat_pattern pre (decl_dotted_18 @ post)"
  shows "fst (detect_java_version E rp tr) = Inr (Some ''1'') \<and>
         get_docker_image_for_java_version E ''1'' tr' =
           (Inr image_13,
            tr' @ [Log WARNING ''No specific Docker image for Java 1, using Java 13 image''])"
proof -
  have "re_search source_compat_pattern (pre @ decl_dotted_18 @ post) = Some (Closed ''1'')"
    using first run_dotted_18 by (rule re_search_first)
  then have "fst (detect_java_version E rp tr) = Inr (Some ''1'')"
    by (simp add: detect_reads [OF reads] version_in_def)
  moreover have "get_docker_image_for_java_version E ''1'' tr' =
           (Inr image_13,
            tr' @ [Log WARNING ''No specific Docker image for Java 1, using Java 13 image''])"
    by (simp add: get_docker_image_for_java_version_def py_int_1 io_defs)
  ultimately show ?thesis by (rule conjI)
qed

theorem dotted_declaration_reads_as_1_witness:
  "descriptor_reads (env_with_text gradle_dotted) [] ''w/a''
     ((''// app'' @ [CHR 0x0A]) @ decl_dotted_18 @ [CHR 0x0A]) \<and>
   no_match_before source_compat_pattern (''// app'' @ [CHR 0x0A]) (decl_dotted_18 @ [CHR 0x0A]) \<and>
   fst (detect_java_version (env_with_text gradle_dotted) ''w/a'' []) = Inr (Some ''1'') \<and>
   get_docker_image_for_java_version (env_with_text gradle_dotted) ''1'' [] =
     (Inr image_13, [Log WARNING ''No specific Docker image for Java 1, using Java 13 image''])"
proof -
  have g: "gradle_dotted = (''// app'' @ [CHR 0x0A]) @ decl_dotted_18 @ [CHR 0x0A]"
    by (simp add: gradle_dotted_def)
  have r: "descriptor_reads (env_with_text gradle_dotted) [] ''w/a''
     ((''// app'' @ [CHR 0x0A]) @ decl_dotted_18 @ [CHR 0x0A])"
    using reads_env_with_text [of gradle_dotted "[]" "''w/a''"] unfolding g .
  have n: "no_match_before source_compat_pattern (''// app'' @ [CHR 0x0A])
      (decl_dotted_18 @ [CHR 0x0A])"
    by (simp add: pattern_eval decl_dotted_18_def)
  from dotted_declaration_reads_as_1 [OF r n, of "[]"] r n show ?thesis
    by (simp del: append_assoc)
qed

text \<open>
  The claim C8 as stated fails: a descriptor with \<open>sourceCompatibility = 17\<close> before
  \<open>sourceCompatibility = 1.8\<close> contains the dotted form and gives \<open>17\<close>.
\<close>

theorem dotted_declaration_counterexample:
  "contains decl_dotted_18 gradle_17_then_dotted \<and>
   descriptor_reads (env_with_text gradle_17_then_dotted) [] ''w/a'' gradle_17_then_dotted \<and>
   fst (detect_java_version (env_with_text gradle_17_then_dotted) ''w/a'' []) = Inr (Some ''17'')"
proof -
  have "contains decl_dotted_18 gradle_17_then_dotted"
    by (simp add: gradle_texts)
  moreover have "version_in gradle_17_then_dotted = Some ''17''"
    by (simp add: version_in_def gradle_texts pattern_eval)
  ultimately show ?thesis
    by (simp add: detect_env_with_text reads_env_with_text)
qed

section \<open>Publishing\<close>

text \<open>
  Claim C5.  In a checkout that opens and whose dirtiness check answers, the publisher
  does the following.  When the check reports no modification, it returns success and
  calls none of \<open>git add\<close>, \<open>git commit\<close>, \<open>git push\<close>.  When the check reports a
  modification, its publishing calls are, in this order and up to the first one that
  raises: \<open>git add\<close> of exactly \<open>.circleci/config.yml\<close>, \<open>git commit\<close> with the message
  \<open>Update CircleCI config for Java\<close> followed by the version, \<open>git push\<close>.
\<close>

theorem publisher_clean_and_dirty:
  assumes opens: "raises E tr (GitRepo rp) = None"
    and check: "is_dirty E rp True True False (tr @ [GitRepo rp]) = (Inr dirty, tr1)"
  shows "(\<not> dirty \<longrightarrow>
            fst (commit_and_push_changes E rp v tr) = Inr True \<and>
            publish_calls (snd (commit_and_push_changes E rp v tr)) = publish_calls tr)
       \<and> (dirty \<longrightarrow>
            publish_calls (snd (commit_and_push_changes E rp v tr)) =
              publish_calls tr @
              GitAdd rp ''.circleci/config.yml'' #
              (if raises E tr1 (GitAdd rp ''.circleci/config.yml'') = None then
                 GitCommit rp (''Update CircleCI config for Java '' @ v) #
                 (if raises E (tr1 @ [GitAdd rp ''.circleci/config.yml''])
                       (GitCommit rp (''Update CircleCI config for Java '' @ v)) = None
                  then [GitPush rp] else [])
               else []))"
proof -
  have "publish_calls (snd (is_dirty E rp True True False (tr @ [GitRepo rp]))) =
      publish_calls (tr @ [GitRepo rp])"
    by (rule is_dirty_publish)
  then have p: "publish_calls tr1 = publish_calls tr"
    by (simp add: check publish_calls_simps)
  show ?thesis
    unfolding commit_unfold [OF opens check] Let_def
    by (simp add: p publish_calls_simps split: option.split)
qed


theorem publisher_clean_and_dirty_witness:
  "raises quiet_env [] (GitRepo ''w/a'') = None \<and>
   is_dirty quiet_env ''w/a'' True True False [GitRepo ''w/a''] =
     (Inr False, [GitRepo ''w/a'', GitDiffCached ''w/a'', GitDiff ''w/a'']) \<and>
   fst (commit_and_push_changes quiet_env ''w/a'' ''17'' []) = Inr True \<and>
   publish_calls (snd (commit_and_push_changes quiet_env ''w/a'' ''17'' [])) = [] \<and>
   raises env_modified [] (GitRepo ''w/a'') = None \<and>
   is_dirty env_modified ''w/a'' True True False [GitRepo ''w/a''] =
     (Inr True, [GitRepo ''w/a'', GitDiffCached ''w/a'', GitDiff ''w/a'']) \<and>
   publish_calls (snd (commit_and_push_changes env_modified ''w/a'' ''17'' [])) =
     [GitAdd ''w/a'' ''.circleci/config.yml'',
      GitCommit ''w/a'' ''Update CircleCI config for Java 17'', GitPush ''w/a'']"
proof -
  have o1: "raises quiet_env [] (GitRepo ''w/a'') = None"
    by (simp add: quiet_env_def)
  have c1: "is_dirty quiet_env ''w/a'' True True False ([] @ [GitRepo ''w/a'']) =
     (Inr False, [GitRepo ''w/a'', GitDiffCached ''w/a'', GitDiff ''w/a''])"
    by (simp add: is_dirty_default quiet_env_def)
  have o2: "raises env_modified [] (GitRepo ''w/a'') = None"
    by (simp add: env_modified_def quiet_env_def)
  have c2: "is_dirty env_modified ''w/a'' True True False ([] @ [GitRepo ''w/a'']) =
     (Inr True, [GitRepo ''w/a'', GitDiffCached ''w/a'', GitDiff ''w/a''])"
    by (simp add: is_dirty_default env_modified_def quiet_env_def)
  have a: "\<And>tr ev. raises env_modified tr ev = None"
    by (simp add: env_modified_def quiet_env_def)
  from publisher_clean_and_dirty [OF o1 c1, of "''17''"]
       publisher_clean_and_dirty [OF o2 c2, of "''17''"] o1 o2 c1 c2
  show ?thesis
    by (simp add: a publish_calls_simps)
qed


text \<open>
  Claim C6.  When the config file is new, hence untracked, in an otherwise clean checkout,
  the dirtiness check (which leaves untracked files out) reports no modification, and
  the publisher returns success without \<open>git add\<close>, \<open>git commit\<close> or \<open>git push\<close>.
\<close>

theorem untracked_config_not_published:
  assumes opens: "raises E tr (GitRepo rp) = None"
    and state: "untracked_config_only E (tr @ [GitRepo rp]) rp"
  shows "fst (is_dirty E rp True True False (tr @ [GitRepo rp])) = Inr False \<and>
         fst (commit_and_push_changes E rp v tr) = Inr True \<and>
         publish_calls (snd (commit_and_push_changes E rp v tr)) = publish_calls tr"
proof -
  have check: "is_dirty E rp True True False (tr @ [GitRepo rp]) =
      (Inr False, (tr @ [GitRepo rp]) @ [GitDiffCached rp, GitDiff rp])"
    using state by (simp add: is_dirty_default untracked_config_only_def)
  show ?thesis
    unfolding commit_unfold [OF opens check] Let_def
    by (simp add: check publish_calls_simps publish_calls_def is_publish_call_def)
qed

theorem untracked_config_not_published_witness:
  "raises env_untracked [] (GitRepo ''w/a'') = None \<and>
   untracked_config_only env_untracked [GitRepo ''w/a''] ''w/a'' \<and>
   fst (is_dirty env_untracked ''w/a'' True True False [GitRepo ''w/a'']) = Inr False \<and>
   fst (commit_and_push_changes env_untracked ''w/a'' ''17'' []) = Inr True \<and>
   publish_calls (snd (commit_and_push_changes env_untracked ''w/a'' ''17'' [])) = []"
proof -
  have o: "raises env_untracked [] (GitRepo ''w/a'') = None"
    by (simp add: env_untracked_def quiet_env_def)
  have u: "untracked_config_only env_untracked ([] @ [GitRepo ''w/a'']) ''w/a''"
    by (simp add: untracked_config_only_def env_untracked_def quiet_env_def)
  from untracked_config_not_published [OF o u, of "''17''"] o u show ?thesis
    by (simp add: publish_calls_simps)
qed


section \<open>The repository list\<close>

text \<open>
  Claim C9.  When the extension of the list file, compared as the code compares it
  (lower-cased), is not \<open>.csv\<close>, the process ends with a non-zero exit status, and no
  event of the run attempts a checkout, whatever the environment does.
\<close>

theorem unsupported_extension_is_fatal:
  "file_ext_of (arg_repo_file args) \<noteq> ''.csv'' \<Longrightarrow>
     exit_status (fst (main E args [])) \<noteq> 0 \<and>
     \<not> (\<exists>ev\<in>set (snd (main E args [])). attempts_checkout ev)"
  by (auto simp: main_def init_def load_master_config_template_def process_repositories_def
     read_repositories_def Let_def io_defs attempts_checkout_def split: option.splits)

theorem unsupported_extension_is_fatal_witness:
  "file_ext_of (arg_repo_file args_ini) \<noteq> ''.csv'' \<and>
   exit_status (fst (main quiet_env args_ini [])) \<noteq> 0 \<and>
   \<not> (\<exists>ev\<in>set (snd (main quiet_env args_ini [])). attempts_checkout ev)"
proof -
  have e: "file_ext_of (arg_repo_file args_ini) \<noteq> ''.csv''"
    by (simp add: args_ini_def args_csv_def file_ext_of_def path_suffix_def path_name_def
        py_lower_def lower_char_def)
  from unsupported_extension_is_fatal [OF e, of quiet_env] e show ?thesis
    by (intro conjI) simp_all
qed


section \<open>Failures and the exit status\<close>

text \<open>
  Claim C3.  The claim says that a failure while rendering the config of one repository
  is logged and that the run goes on.  In \<open>update_circleci_config\<close> the call of
  \<open>os.makedirs\<close> stands before the \<open>try\<close>: when it raises, nothing catches the exception.
  With two repositories in the list and a first checkout in which \<open>.circleci\<close> cannot be
  created, the run ends there with exit status 1: nothing is logged about the failure
  and the second repository is never attempted.
\<close>

theorem config_dir_failure_ends_run:
  "main env_config_dir_blocked args_csv [] =
     (Inl (Exc (Exn OSError ''[Errno 17] File exists'')),
      [Log WARNING (''No GitHub token provided. Private repositories won'' @ [CHR 0x27] @
         ''t be accessible.''),
       Makedirs ''./workspace'', OpenRead ''template.yml'',
       Log INFO ''Loaded master template from template.yml'',
       CsvRead ''repos.csv'', Log INFO ''Loaded 2 repositories from repos.csv'',
       Log INFO ''Processing repository: https://github.com/org/a.git, branch: main'',
       PathExists ''./workspace/a'',
       Log INFO ''Cloning repository: a, branch: main'',
       GitCloneFrom ''https://github.com/org/a.git'' ''./workspace/a'' ''main'',
       PathExists ''./workspace/a/build.gradle'',
       OpenRead ''./workspace/a/build.gradle'',
       Log INFO ''Detected Java version: 17'',
       Makedirs ''./workspace/a/.circleci''])
   \<and> exit_status (fst (main env_config_dir_blocked args_csv [])) = 1"
  by code_simp

end
